theory Spec2Isabelle
  imports Main
begin

section \<open>Errors and strings\<close>

text \<open>
  The generator is TypeScript. Every \<^verbatim>\<open>throw\<close> and every run-time \<^verbatim>\<open>TypeError\<close> of
  \<^verbatim>\<open>src/index.ts\<close> is a value of \<open>error\<close>; a function that can throw returns
  \<open>error + 'a\<close> with \<open>Inl\<close> for the exception.
  \<^item> \<open>TypeError\<close>: a property read on \<^verbatim>\<open>undefined\<close> (\<^verbatim>\<open>part[0].toUpperCase()\<close> on an
    empty segment, \<^verbatim>\<open>collection.collection\<close> on a catalog entry that does not exist);
  \<^item> \<open>UnknownType\<close>: \<^verbatim>\<open>new Error('Unknown type')\<close> of \<^verbatim>\<open>fieldTypeToJsType\<close>;
  \<^item> \<open>QueryFailure\<close>: a rejection of the awaited metadata query.

  Strings are \<open>string\<close>; collection names are taken to be ASCII, so the case
  conversions below map the 26 letters and leave every other character alone.
\<close>

datatype error = TypeError | UnknownType | QueryFailure string

definition ascii_lower :: string where
  "ascii_lower = ''abcdefghijklmnopqrstuvwxyz''"

definition ascii_upper :: string where
  "ascii_upper = ''ABCDEFGHIJKLMNOPQRSTUVWXYZ''"

definition toUpperChar :: "char \<Rightarrow> char" where
  "toUpperChar c = (case map_of (zip ascii_lower ascii_upper) c of Some u \<Rightarrow> u | None \<Rightarrow> c)"

definition toLowerChar :: "char \<Rightarrow> char" where
  "toLowerChar c = (case map_of (zip ascii_upper ascii_lower) c of Some l \<Rightarrow> l | None \<Rightarrow> c)"

definition toUpperCase :: "string \<Rightarrow> string" where
  "toUpperCase s = map toUpperChar s"

definition toLowerCase :: "string \<Rightarrow> string" where
  "toLowerCase s = map toLowerChar s"

text \<open>
  \<^verbatim>\<open>value.split('_')\<close>: the segments between underscores. The result is never empty:
  \<^verbatim>\<open>"".split('_')\<close> is \<^verbatim>\<open>[""]\<close>, and a leading, trailing or doubled underscore gives an
  empty segment.
\<close>

fun split_underscore :: "string \<Rightarrow> string list" where
  "split_underscore [] = [[]]"
| "split_underscore (c # cs) =
     (if c = CHR ''_'' then [] # split_underscore cs
      else (case split_underscore cs of
              [] \<Rightarrow> [[c]]
            | p # ps \<Rightarrow> (c # p) # ps))"

text \<open>\<^verbatim>\<open>xs.join(sep)\<close>.\<close>

fun join :: "string \<Rightarrow> string list \<Rightarrow> string" where
  "join sep [] = []"
| "join sep [x] = x"
| "join sep (x # y # ys) = x @ sep @ join sep (y # ys)"

text \<open>\<^verbatim>\<open>xs.map(f)\<close> for an \<open>f\<close> that can throw: the first exception ends the map.\<close>

fun mapE :: "('a \<Rightarrow> error + 'b) \<Rightarrow> 'a list \<Rightarrow> error + 'b list" where
  "mapE f [] = Inr []"
| "mapE f (x # xs) =
     (case f x of
        Inl e \<Rightarrow> Inl e
      | Inr y \<Rightarrow> (case mapE f xs of Inl e \<Rightarrow> Inl e | Inr ys \<Rightarrow> Inr (y # ys)))"

text \<open>A loop whose body can throw: the first exception ends the loop.\<close>

fun foldE :: "('s \<Rightarrow> 'a \<Rightarrow> error + 's) \<Rightarrow> 'a list \<Rightarrow> 's \<Rightarrow> error + 's" where
  "foldE f [] s = Inr s"
| "foldE f (x # xs) s = (case f s x of Inl e \<Rightarrow> Inl e | Inr s' \<Rightarrow> foldE f xs s')"

text \<open>JavaScript truthiness of a \<^verbatim>\<open>string | null\<close>: neither \<^verbatim>\<open>null\<close> nor \<^verbatim>\<open>""\<close>.\<close>

fun truthy :: "string option \<Rightarrow> bool" where
  "truthy None = False"
| "truthy (Some s) = (s \<noteq> [])"

text \<open>\<^verbatim>\<open>a || b\<close> on a \<^verbatim>\<open>string | null\<close> with a string default.\<close>

fun orElse :: "string option \<Rightarrow> string \<Rightarrow> string" where
  "orElse None d = d"
| "orElse (Some s) d = (if s = [] then d else s)"

section \<open>The schema catalog\<close>

text \<open>
  \<^verbatim>\<open>FieldOverview\<close>, \<^verbatim>\<open>Collection\<close>, \<^verbatim>\<open>Relation\<close> and \<^verbatim>\<open>SchemaOverview\<close> of
  \<^verbatim>\<open>@directus/shared/types\<close>, with the members \<^verbatim>\<open>src/index.ts\<close> reads. The members
  \<^verbatim>\<open>note\<close>, \<^verbatim>\<open>alias\<close>, \<^verbatim>\<open>fields\<close> and \<^verbatim>\<open>value\<close> carry a prime, and the members of
  a relation the prefix \<open>rel_\<close> where a record above already has the name.

  \<open>fields'\<close> is \<^verbatim>\<open>Object.values(collection.fields)\<close>, the fields in the order in which
  JavaScript iterates over them. \<open>collections\<close> is the catalog as an association list
  in that order: \<^verbatim>\<open>schema.collections[k]\<close> is \<open>map_of\<close>, and
  \<^verbatim>\<open>Object.values(collections)\<close> is \<open>map snd\<close>. Properties inherited from the prototype
  of an object are not modelled.
\<close>

record FieldOverview =
  field :: string
  type :: string
  nullable :: bool
  note' :: "string option"
  dbType :: "string option"
  alias' :: bool

record Collection =
  collection :: string
  fields' :: "FieldOverview list"

record ForeignKey =
  foreign_key_column :: "string option"

record RelationMeta =
  many_collection :: string
  one_collection :: "string option"
  one_field :: "string option"

record Relation =
  rel_collection :: string
  rel_field :: string
  related_collection :: "string option"
  rel_schema :: "ForeignKey option"
  meta :: "RelationMeta option"

record SchemaOverview =
  collections :: "(string \<times> Collection) list"
  relations :: "Relation list"

text \<open>
  The record the metadata query returns for a field: \<^verbatim>\<open>fieldItem?.options?.choices\<close>,
  each choice with its \<^verbatim>\<open>value\<close>.
\<close>

record Choice =
  value' :: string

record FieldOptions =
  choices :: "Choice list option"

record FieldItem =
  options :: "FieldOptions option"

text \<open>
  \<^verbatim>\<open>fieldsService.readByQuery\<close> with the filter on \<^verbatim>\<open>collection\<close> and \<^verbatim>\<open>field\<close> and
  \<^verbatim>\<open>limit: 1\<close>: an external collaborator, a parameter of the model. It is given the
  collection name and the field name and returns the rows, or rejects.
\<close>

type_synonym metadata_query = "string \<Rightarrow> string \<Rightarrow> error + FieldItem list"

section \<open>Identifier derivation\<close>

text \<open>
  \<^verbatim>\<open>part[0].toUpperCase() + part.substring(1).toLowerCase()\<close>: on an empty segment
  \<^verbatim>\<open>part[0]\<close> is \<^verbatim>\<open>undefined\<close> and the call throws.
\<close>

definition upperCamelPart :: "string \<Rightarrow> error + string" where
  "upperCamelPart part =
     (case part of
        [] \<Rightarrow> Inl TypeError
      | c # cs \<Rightarrow> Inr (toUpperCase [c] @ toLowerCase cs))"

definition upperCamelCase :: "string \<Rightarrow> error + string" where
  "upperCamelCase v =
     (case mapE upperCamelPart (split_underscore v) of
        Inl e \<Rightarrow> Inl e
      | Inr parts \<Rightarrow> Inr (join [] parts))"

text \<open>
  \<^verbatim>\<open>className\<close>. \<^verbatim>\<open>pluralize.singular\<close> belongs to the npm package \<^verbatim>\<open>pluralize\<close>, which is
  not part of the repository: it is the parameter \<open>singular\<close>.
\<close>

definition className :: "(string \<Rightarrow> string) \<Rightarrow> Collection \<Rightarrow> error + string" where
  "className singular c = upperCamelCase (singular (collection c))"

text \<open>
  \<^verbatim>\<open>className(schema.collections[k])\<close>: a key the catalog does not have gives
  \<^verbatim>\<open>undefined\<close>, and \<^verbatim>\<open>className\<close> throws on reading its \<^verbatim>\<open>collection\<close>.
\<close>

definition classNameOf ::
  "(string \<Rightarrow> string) \<Rightarrow> SchemaOverview \<Rightarrow> string \<Rightarrow> error + string" where
  "classNameOf singular schema k =
     (case map_of (collections schema) k of
        None \<Rightarrow> Inl TypeError
      | Some c \<Rightarrow> className singular c)"

text \<open>A \<^verbatim>\<open>string | null\<close> used as a property key: \<^verbatim>\<open>null\<close> is the key \<^verbatim>\<open>"null"\<close>.\<close>

fun propertyKey :: "string option \<Rightarrow> string" where
  "propertyKey None = ''null''"
| "propertyKey (Some k) = k"

text \<open>
  Modelled from the spec: \<^verbatim>\<open>pluralize.singular\<close>, of the npm package \<^verbatim>\<open>pluralize\<close>, is
  missing. The spec describes it as English singularization that strips typical plural
  suffixes, and fixes three values: \<^verbatim>\<open>articles\<close> gives \<^verbatim>\<open>article\<close>, \<^verbatim>\<open>user_accounts\<close>
  gives \<^verbatim>\<open>user_account\<close> and \<^verbatim>\<open>news\<close> gives \<^verbatim>\<open>new\<close>. This stand-in removes one final
  \<^verbatim>\<open>s\<close> and agrees with the spec on all three; it is used at concrete inputs only, on
  regular plurals in \<^verbatim>\<open>-s\<close>.
\<close>

definition singular_spec :: "string \<Rightarrow> string" where
  "singular_spec s = (if s \<noteq> [] \<and> last s = CHR ''s'' then butlast s else s)"

section \<open>Scalar type mapper\<close>

text \<open>\<^verbatim>\<open>fieldTypeToJsType\<close>: the \<^verbatim>\<open>switch\<close> on \<^verbatim>\<open>field.type\<close>, every other type throws.\<close>

definition fieldTypeToJsType :: "FieldOverview \<Rightarrow> Collection \<Rightarrow> error + string" where
  "fieldTypeToJsType f c =
     (if type f = ''boolean'' then Inr ''boolean''
      else if type f \<in> {''integer'', ''float'', ''decimal'', ''bigInteger''} then Inr ''number''
      else if type f \<in> {''dateTime'', ''date'', ''time'', ''timestamp''} then Inr ''string''
      else if type f \<in> {''text'', ''string'', ''uuid'', ''hash''} then Inr ''string''
      else if type f = ''json'' then Inr ''any''
      else if type f = ''csv'' then Inr ''string[]''
      else Inl UnknownType)"

section \<open>Relation classifier\<close>

text \<open>\<^verbatim>\<open>import { T } from "./T";\<close>\<close>

definition importLine :: "string \<Rightarrow> string" where
  \<open>importLine t = ''import { '' @ t @ '' } from "./'' @ t @ ''";''\<close>

text \<open>
  \<^verbatim>\<open>fieldToRelationType\<close>. The result is \<^verbatim>\<open>null\<close> (\<open>None\<close>) or an array whose first
  element is the type expression and whose other elements are import lines.
\<close>

definition fieldToRelationType ::
  "(string \<Rightarrow> string) \<Rightarrow> FieldOverview \<Rightarrow> Collection \<Rightarrow> SchemaOverview
     \<Rightarrow> error + string list option" where
  \<open>fieldToRelationType singular f c schema =
     (case find (\<lambda>r. rel_collection r = collection c \<and> rel_field r = field f)
             (relations schema) of
        None \<Rightarrow> Inr None
      | Some relation \<Rightarrow>
          (case classNameOf singular schema (propertyKey (related_collection relation)) of
             Inl e \<Rightarrow> Inl e
           | Inr targetClassName \<Rightarrow>
               (case (case rel_schema relation of
                        None \<Rightarrow> fieldTypeToJsType f c
                      | Some fk \<Rightarrow>
                          if truthy (foreign_key_column fk)
                          then Inr (targetClassName @ ''["'' @ the (foreign_key_column fk) @ ''"]'')
                          else fieldTypeToJsType f c) of
                  Inl e \<Rightarrow> Inl e
                | Inr keyType \<Rightarrow>
                    (case className singular c of
                       Inl e \<Rightarrow> Inl e
                     | Inr own \<Rightarrow>
                         if targetClassName = own
                         then Inr (Some [targetClassName @ '' | '' @ keyType])
                         else Inr (Some [targetClassName @ '' | '' @ keyType,
                                         importLine targetClassName])))))\<close>

text \<open>
  \<^verbatim>\<open>aliasToType\<close>. The predicate of \<^verbatim>\<open>find\<close> is
  \<^verbatim>\<open>r?.meta?.one_collection === collection.collection && r?.meta?.one_field\<close>: the second
  conjunct is the truthiness of \<^verbatim>\<open>one_field\<close>; the parameter \<^verbatim>\<open>field\<close> is not read.
\<close>

definition aliasMatch :: "Collection \<Rightarrow> Relation \<Rightarrow> bool" where
  "aliasMatch c r =
     (case meta r of
        None \<Rightarrow> False
      | Some m \<Rightarrow> one_collection m = Some (collection c) \<and> truthy (one_field m))"

definition aliasToType ::
  "(string \<Rightarrow> string) \<Rightarrow> FieldOverview \<Rightarrow> Collection \<Rightarrow> SchemaOverview
     \<Rightarrow> error + string list option" where
  "aliasToType singular f c schema =
     (case find (aliasMatch c) (relations schema) of
        None \<Rightarrow> Inr None
      | Some relation \<Rightarrow>
          (case meta relation of
             None \<Rightarrow> Inl TypeError
           | Some m \<Rightarrow>
               (case classNameOf singular schema (many_collection m) of
                  Inl e \<Rightarrow> Inl e
                | Inr targetClassName \<Rightarrow>
                    (case className singular c of
                       Inl e \<Rightarrow> Inl e
                     | Inr own \<Rightarrow>
                         if targetClassName = own
                         then Inr (Some [targetClassName])
                         else Inr (Some [targetClassName @ ''[]'',
                                         importLine targetClassName])))))"

section \<open>Enumerated choices\<close>

text \<open>\<^verbatim>\<open>value.replaceAll('\'', '\\\'')\<close>: a backslash before every single quote.\<close>

definition escapeQuotes :: "string \<Rightarrow> string" where
  "escapeQuotes s = concat (map (\<lambda>ch. if ch = CHR 0x27 then [CHR 0x5C, CHR 0x27] else [ch]) s)"

definition choiceLiteral :: "Choice \<Rightarrow> string" where
  "choiceLiteral ch = [CHR 0x27] @ escapeQuotes (value' ch) @ [CHR 0x27]"

definition enumType :: "Choice list \<Rightarrow> string" where
  "enumType cs = join '' | '' (map choiceLiteral cs)"

text \<open>
  \<^verbatim>\<open>fieldItem?.options?.choices\<close> of the first row, when \<^verbatim>\<open>?.length\<close> is truthy:
  no row, no \<^verbatim>\<open>options\<close>, no \<^verbatim>\<open>choices\<close> and an empty list all give \<open>None\<close>.
\<close>

definition configuredChoices :: "FieldItem list \<Rightarrow> Choice list option" where
  "configuredChoices items =
     (case items of
        [] \<Rightarrow> None
      | fieldItem # _ \<Rightarrow>
          (case options fieldItem of
             None \<Rightarrow> None
           | Some opts \<Rightarrow>
               (case choices opts of
                  None \<Rightarrow> None
                | Some cs \<Rightarrow> if length cs \<noteq> 0 then Some cs else None)))"

section \<open>Model emitter\<close>

text \<open>
  The state of the loop of \<^verbatim>\<open>generateModel\<close>: the import lines, the text so far, and
  what \<^verbatim>\<open>console.error\<close> has printed. A diagnostic is the three arguments of the call:
  the text before the exception, the exception, the text after it.
\<close>

record Diagnostic =
  headline :: string
  cause :: error
  footer :: string

record GenState =
  imports' :: "string list"
  source :: string
  diagnostics :: "Diagnostic list"

text \<open>\<^verbatim>\<open>if (!imports.includes(importLine)) imports.push(importLine)\<close>\<close>

definition pushImport :: "string list \<Rightarrow> string \<Rightarrow> string list" where
  "pushImport imps l = (if l \<in> set imps then imps else imps @ [l])"

text \<open>\<^verbatim>\<open>if (field.nullable) type = `${type} | null`\<close>\<close>

definition widen :: "FieldOverview \<Rightarrow> string \<Rightarrow> string" where
  "widen f t = (if nullable f then t @ '' | null'' else t)"

text \<open>
  The body of the \<^verbatim>\<open>try\<close> block for one field: the type of the field and the import
  list after it, or the exception. \<^verbatim>\<open>relation[0]\<close> of an empty array would be
  \<^verbatim>\<open>undefined\<close>; neither classifier returns one.
\<close>

definition fieldTry ::
  "(string \<Rightarrow> string) \<Rightarrow> metadata_query \<Rightarrow> SchemaOverview \<Rightarrow> Collection
     \<Rightarrow> string list \<Rightarrow> FieldOverview \<Rightarrow> error + (string \<times> string list)" where
  "fieldTry singular readByQuery schema c imps f =
     (case (if alias' f then aliasToType singular f c schema
            else fieldToRelationType singular f c schema) of
        Inl e \<Rightarrow> Inl e
      | Inr (Some relation) \<Rightarrow>
          Inr (widen f (case relation of [] \<Rightarrow> ''undefined'' | t # _ \<Rightarrow> t),
               foldl pushImport imps (drop 1 relation))
      | Inr None \<Rightarrow>
          (case readByQuery (collection c) (field f) of
             Inl e \<Rightarrow> Inl e
           | Inr items \<Rightarrow>
               (case configuredChoices items of
                  Some cs \<Rightarrow> Inr (widen f (enumType cs), imps)
                | None \<Rightarrow>
                    (case fieldTypeToJsType f c of
                       Inl e \<Rightarrow> Inl e
                     | Inr t \<Rightarrow> Inr (widen f t, imps)))))"

text \<open>The documentation comment and the member line of one field.\<close>

definition memberText :: "FieldOverview \<Rightarrow> string \<Rightarrow> string" where
  "memberText f t =
     ''\<newline>  /**\<newline>   * '' @ orElse (note' f) ''No description.'' @
     ''\<newline>   *\<newline>   * Type in directus: '' @ type f @
     ''\<newline>   * Type in database: '' @ orElse (dbType f) ''no column'' @
     ''\<newline>   */\<newline>   '' @ field f @ '': '' @ t @ '';\<newline>''"

text \<open>The arguments of \<^verbatim>\<open>console.error\<close> in the \<^verbatim>\<open>catch\<close> block.\<close>

definition missingField :: "Collection \<Rightarrow> FieldOverview \<Rightarrow> error \<Rightarrow> Diagnostic" where
  \<open>missingField c f e =
     \<lparr>headline =
        ''\<newline>== Missing Field ==\<newline>Failed to get the type for '' @ collection c @ ''.'' @ field f @
        ''. Setting to "never".\<newline>Please report this error: '' @
        ''https://github.com/ChappIO/directus-extension-models/issues.'' @
        ''\<newline>\<newline>\<newline>Stack Trace:'',
      cause = e,
      footer = ''\<newline>\<newline>Model generation will still continue, no worries.\<newline>''\<rparr>\<close>

text \<open>One iteration of the loop over the fields: \<^verbatim>\<open>try\<close>, \<^verbatim>\<open>catch\<close>, \<^verbatim>\<open>source +=\<close>.\<close>

definition fieldStep ::
  "(string \<Rightarrow> string) \<Rightarrow> metadata_query \<Rightarrow> SchemaOverview \<Rightarrow> Collection
     \<Rightarrow> GenState \<Rightarrow> FieldOverview \<Rightarrow> GenState" where
  "fieldStep singular readByQuery schema c st f =
     (case fieldTry singular readByQuery schema c (imports' st) f of
        Inr (t, imps) \<Rightarrow>
          st\<lparr>imports' := imps, source := source st @ memberText f t\<rparr>
      | Inl e \<Rightarrow>
          st\<lparr>source := source st @ memberText f ''never'',
             diagnostics := diagnostics st @ [missingField c f e]\<rparr>)"

text \<open>
  \<^verbatim>\<open>generateModel\<close>: the text of the unit and the diagnostics printed. The header calls
  \<^verbatim>\<open>className\<close> before the loop, outside every \<^verbatim>\<open>try\<close>. \<^verbatim>\<open>if (imports)\<close> tests an
  array, which is always truthy, so the blank line is always added.
\<close>

definition generateModel ::
  "(string \<Rightarrow> string) \<Rightarrow> metadata_query \<Rightarrow> Collection \<Rightarrow> SchemaOverview
     \<Rightarrow> error + (string \<times> Diagnostic list)" where
  "generateModel singular readByQuery c schema =
     (case className singular c of
        Inl e \<Rightarrow> Inl e
      | Inr name \<Rightarrow>
          (let st = foldl (fieldStep singular readByQuery schema c)
                      \<lparr>imports' = [],
                       source = ''export interface '' @ name @ '' {\<newline>'',
                       diagnostics = []\<rparr>
                      (fields' c);
               importsSource = concat (map (\<lambda>l. l @ ''\<newline>'') (imports' st)) @ ''\<newline>''
           in Inr (importsSource @ source st @ ''}\<newline>'', diagnostics st)))"

section \<open>Index emitter\<close>

text \<open>\<^verbatim>\<open>generateIndex\<close>: two loops over \<^verbatim>\<open>Object.values(collections)\<close>, each appending to \<^verbatim>\<open>source\<close>.\<close>

definition indexImportLine :: "string \<Rightarrow> string \<Rightarrow> string" where
  \<open>indexImportLine n1 n2 = ''import { '' @ n1 @ '' } from "./'' @ n2 @ ''";\<newline>''\<close>

definition indexImport ::
  "(string \<Rightarrow> string) \<Rightarrow> string \<Rightarrow> Collection \<Rightarrow> error + string" where
  "indexImport singular src c =
     (case className singular c of
        Inl e \<Rightarrow> Inl e
      | Inr n1 \<Rightarrow>
          (case className singular c of
             Inl e \<Rightarrow> Inl e
           | Inr n2 \<Rightarrow> Inr (src @ indexImportLine n1 n2)))"

definition indexMember ::
  "(string \<Rightarrow> string) \<Rightarrow> string \<Rightarrow> Collection \<Rightarrow> error + string" where
  "indexMember singular src c =
     (case className singular c of
        Inl e \<Rightarrow> Inl e
      | Inr n \<Rightarrow> Inr (src @ ''  '' @ collection c @ '': '' @ n @ '';\<newline>''))"

definition generateIndex ::
  "(string \<Rightarrow> string) \<Rightarrow> (string \<times> Collection) list \<Rightarrow> error + string" where
  "generateIndex singular colls =
     (case foldE (indexImport singular) (map snd colls) [] of
        Inl e \<Rightarrow> Inl e
      | Inr src1 \<Rightarrow>
          (case foldE (indexMember singular) (map snd colls)
                  (src1 @ ''\<newline>export interface Collections {\<newline>'') of
             Inl e \<Rightarrow> Inl e
           | Inr src2 \<Rightarrow> Inr (src2 @ ''}\<newline>'')))"

section \<open>The snapshot command\<close>

text \<open>
  The action of \<^verbatim>\<open>models snapshot\<close>: one file per collection, then the index. The
  result is the files written, as name and content under the target directory, with the
  diagnostics printed; an exception that leaves the loop rejects the action, and the run
  ends with it. Failures of \<^verbatim>\<open>mkdir\<close> and \<^verbatim>\<open>writeFile\<close> are not modelled.
\<close>

definition snapshotStep ::
  "(string \<Rightarrow> string) \<Rightarrow> metadata_query \<Rightarrow> SchemaOverview
     \<Rightarrow> (string \<times> string) list \<times> Diagnostic list \<Rightarrow> Collection
     \<Rightarrow> error + ((string \<times> string) list \<times> Diagnostic list)" where
  "snapshotStep singular readByQuery schema acc c =
     (case className singular c of
        Inl e \<Rightarrow> Inl e
      | Inr name \<Rightarrow>
          (case generateModel singular readByQuery c schema of
             Inl e \<Rightarrow> Inl e
           | Inr (unit, diags) \<Rightarrow>
               Inr (fst acc @ [(name @ ''.d.ts'', unit)], snd acc @ diags)))"

definition snapshot ::
  "(string \<Rightarrow> string) \<Rightarrow> metadata_query \<Rightarrow> SchemaOverview
     \<Rightarrow> error + ((string \<times> string) list \<times> Diagnostic list)" where
  "snapshot singular readByQuery schema =
     (case foldE (snapshotStep singular readByQuery schema)
             (map snd (collections schema)) ([], []) of
        Inl e \<Rightarrow> Inl e
      | Inr (files, diags) \<Rightarrow>
          (case generateIndex singular (collections schema) of
             Inl e \<Rightarrow> Inl e
           | Inr index \<Rightarrow> Inr (files @ [(''index.d.ts'', index)], diags)))"

section \<open>What one field contributes\<close>

text \<open>
  Three observations on the \<^verbatim>\<open>try\<close> block of one field, used to state what the loop
  of \<^verbatim>\<open>generateModel\<close> computes: the import lines its relation asks for, the type
  written for it, and the diagnostic printed for it. \<open>firstSeen\<close> removes duplicates
  from a list and keeps the first occurrence of each element.
\<close>

definition fieldImports ::
  "(string \<Rightarrow> string) \<Rightarrow> SchemaOverview \<Rightarrow> Collection \<Rightarrow> FieldOverview \<Rightarrow> string list" where
  "fieldImports singular schema c f =
     (case (if alias' f then aliasToType singular f c schema
            else fieldToRelationType singular f c schema) of
        Inr (Some relation) \<Rightarrow> drop 1 relation
      | _ \<Rightarrow> [])"

definition fieldType ::
  "(string \<Rightarrow> string) \<Rightarrow> metadata_query \<Rightarrow> SchemaOverview \<Rightarrow> Collection
     \<Rightarrow> FieldOverview \<Rightarrow> string" where
  "fieldType singular readByQuery schema c f =
     (case fieldTry singular readByQuery schema c [] f of
        Inr (t, _) \<Rightarrow> t
      | Inl _ \<Rightarrow> ''never'')"

definition fieldDiagnostics ::
  "(string \<Rightarrow> string) \<Rightarrow> metadata_query \<Rightarrow> SchemaOverview \<Rightarrow> Collection
     \<Rightarrow> FieldOverview \<Rightarrow> Diagnostic list" where
  "fieldDiagnostics singular readByQuery schema c f =
     (case fieldTry singular readByQuery schema c [] f of
        Inr _ \<Rightarrow> []
      | Inl e \<Rightarrow> [missingField c f e])"

definition firstSeen :: "string list \<Rightarrow> string list" where
  "firstSeen ls = rev (remdups (rev ls))"

section \<open>A small catalog\<close>

text \<open>
  A catalog used at concrete inputs: authors with the reverse sides of two relations,
  articles with two foreign keys to authors, comments with a foreign key to authors and
  a relation to articles that has no foreign key constraint, and pages, whose
  \<^verbatim>\<open>parent\<close> points to pages again. The metadata query \<open>noChoices\<close> finds no row.
\<close>

definition plainField :: "string \<Rightarrow> string \<Rightarrow> FieldOverview" where
  "plainField n t =
     \<lparr>field = n, type = t, nullable = False, note' = None, dbType = Some t, alias' = False\<rparr>"

definition aliasField :: "string \<Rightarrow> FieldOverview" where
  "aliasField n =
     \<lparr>field = n, type = ''alias'', nullable = False, note' = None, dbType = None,
      alias' = True\<rparr>"

definition manyToOne :: "string \<Rightarrow> string \<Rightarrow> string \<Rightarrow> string \<Rightarrow> Relation" where
  "manyToOne many f one alias_name =
     \<lparr>rel_collection = many, rel_field = f, related_collection = Some one,
      rel_schema = Some \<lparr>foreign_key_column = Some ''id''\<rparr>,
      meta = Some \<lparr>many_collection = many, one_collection = Some one,
                   one_field = Some alias_name\<rparr>\<rparr>"

definition authors :: Collection where
  "authors = \<lparr>collection = ''authors'',
              fields' = [plainField ''id'' ''integer'', aliasField ''articles'',
                         aliasField ''comments'', aliasField ''divider'']\<rparr>"

definition articles :: Collection where
  "articles = \<lparr>collection = ''articles'',
               fields' = [plainField ''id'' ''integer'', plainField ''author'' ''integer'',
                          plainField ''editor'' ''integer'']\<rparr>"

definition comments :: Collection where
  "comments = \<lparr>collection = ''comments'',
               fields' = [plainField ''id'' ''integer'', plainField ''author'' ''integer'',
                          plainField ''article'' ''uuid'']\<rparr>"

definition pages :: Collection where
  "pages = \<lparr>collection = ''pages'',
            fields' = [plainField ''id'' ''integer'', plainField ''parent'' ''integer'',
                       aliasField ''children'']\<rparr>"

definition blog :: SchemaOverview where
  "blog = \<lparr>collections = [(''authors'', authors), (''articles'', articles),
                           (''comments'', comments), (''pages'', pages)],
           relations = [manyToOne ''articles'' ''author'' ''authors'' ''articles'',
                        manyToOne ''comments'' ''author'' ''authors'' ''comments'',
                        manyToOne ''pages'' ''parent'' ''pages'' ''children'',
                        manyToOne ''articles'' ''editor'' ''authors'' ''edited'',
                        \<lparr>rel_collection = ''comments'', rel_field = ''article'',
                         related_collection = Some ''articles'', rel_schema = None,
                         meta = Some \<lparr>many_collection = ''comments'',
                                      one_collection = Some ''articles'',
                                      one_field = None\<rparr>\<rparr>]\<rparr>"

definition noChoices :: metadata_query where
  "noChoices c f = Inr []"

text \<open>
  A second catalog without relations: shapes has a nullable geometry column, a type
  \<^verbatim>\<open>fieldTypeToJsType\<close> rejects, between two columns it accepts.
\<close>

definition shapes :: Collection where
  "shapes = \<lparr>collection = ''shapes'',
             fields' = [plainField ''id'' ''integer'',
                        (plainField ''area'' ''geometry'')\<lparr>nullable := True\<rparr>,
                        (plainField ''name'' ''string'')\<lparr>nullable := True\<rparr>]\<rparr>"

definition layers :: Collection where
  "layers = \<lparr>collection = ''layers'', fields' = [plainField ''id'' ''integer'']\<rparr>"

definition atlas :: SchemaOverview where
  "atlas = \<lparr>collections = [(''shapes'', shapes), (''layers'', layers)], relations = []\<rparr>"





text \<open>A fourth catalog: the name of its second collection has a doubled underscore.\<close>

definition blog_posts :: Collection where
  "blog_posts = \<lparr>collection = ''blog__posts'', fields' = [plainField ''id'' ''integer'']\<rparr>"

definition site :: SchemaOverview where
  "site = \<lparr>collections = [(''layers'', layers), (''blog__posts'', blog_posts)],
           relations = []\<rparr>"

section \<open>Auxiliary lemmas\<close>

subsection \<open>The loop over the fields\<close>

lemma pushImport_firstSeen:
  "distinct acc \<Longrightarrow> foldl pushImport acc ls = firstSeen (acc @ ls)"
proof (induction ls rule: rev_induct)
  case Nil
  then have "distinct (rev acc)" by simp
  then have "remdups (rev acc) = rev acc" by (rule distinct_remdups_id)
  then have "rev (remdups (rev acc)) = acc" by (simp only: rev_rev_ident)
  then show ?case by (simp only: firstSeen_def foldl_Nil append_Nil2)
next
  case (snoc l ls)
  then show ?case by (auto simp: firstSeen_def pushImport_def)
qed



lemma fieldTry_imports:
  "fieldTry singular rq schema c imps f = Inr (t, imps') \<Longrightarrow>
     imps' = foldl pushImport imps (fieldImports singular schema c f)"
  by (auto simp: fieldTry_def fieldImports_def split: sum.splits option.splits if_splits)

lemma fieldTry_type_indep:
  "fieldTry singular rq schema c imps f = Inr (t, imps') \<Longrightarrow>
     \<exists>imps''. fieldTry singular rq schema c [] f = Inr (t, imps'')"
  by (auto simp: fieldTry_def split: sum.splits option.splits if_splits)

lemma fieldTry_error_indep:
  "fieldTry singular rq schema c imps f = Inl e \<Longrightarrow>
     fieldTry singular rq schema c imps0 f = Inl e"
  by (auto simp: fieldTry_def split: sum.splits option.splits if_splits)

lemma fieldTry_error_imports:
  "fieldTry singular rq schema c imps f = Inl e \<Longrightarrow> fieldImports singular schema c f = []"
  by (auto simp: fieldTry_def fieldImports_def split: sum.splits option.splits if_splits)

lemma fieldStep_Inl:
  "fieldTry singular rq schema c (imports' st) f = Inl e \<Longrightarrow>
   fieldStep singular rq schema c st f =
     st\<lparr>source := source st @ memberText f ''never'',
        diagnostics := diagnostics st @ [missingField c f e]\<rparr>"
  by (simp add: fieldStep_def)

lemma fieldStep_Inr:
  "fieldTry singular rq schema c (imports' st) f = Inr (t, imps) \<Longrightarrow>
   fieldStep singular rq schema c st f =
     st\<lparr>imports' := imps, source := source st @ memberText f t\<rparr>"
  by (simp add: fieldStep_def)

lemma fieldStep_char:
  "fieldStep singular rq schema c st f =
     st\<lparr>imports' := foldl pushImport (imports' st) (fieldImports singular schema c f),
        source := source st @ memberText f (fieldType singular rq schema c f),
        diagnostics := diagnostics st @ fieldDiagnostics singular rq schema c f\<rparr>"
proof (cases "fieldTry singular rq schema c (imports' st) f")
  case (Inl e)
  have 0: "fieldTry singular rq schema c [] f = Inl e"
    using Inl by (rule fieldTry_error_indep)
  have 1: "fieldImports singular schema c f = []"
    using Inl by (rule fieldTry_error_imports)
  have 2: "fieldType singular rq schema c f = ''never''"
    unfolding fieldType_def 0 by simp
  have 3: "fieldDiagnostics singular rq schema c f = [missingField c f e]"
    unfolding fieldDiagnostics_def 0 by simp
  show ?thesis
    unfolding fieldStep_Inl [OF Inl] 1 2 3 by simp
next
  case (Inr p)
  obtain t imps where p: "p = (t, imps)" by (cases p)
  have r: "fieldTry singular rq schema c (imports' st) f = Inr (t, imps)"
    using Inr p by simp
  obtain imps0 where 0: "fieldTry singular rq schema c [] f = Inr (t, imps0)"
    using fieldTry_type_indep [OF r] by blast
  have 1: "imps = foldl pushImport (imports' st) (fieldImports singular schema c f)"
    using r by (rule fieldTry_imports)
  have 2: "fieldType singular rq schema c f = t"
    unfolding fieldType_def 0 by simp
  have 3: "fieldDiagnostics singular rq schema c f = []"
    unfolding fieldDiagnostics_def 0 by simp
  show ?thesis
    unfolding fieldStep_Inr [OF r] 2 3 1 [symmetric] by simp
qed

lemma fieldLoop_char:
  "foldl (fieldStep singular rq schema c) st fs =
     st\<lparr>imports' := foldl pushImport (imports' st)
                       (concat (map (fieldImports singular schema c) fs)),
        source := source st @
                  concat (map (\<lambda>g. memberText g (fieldType singular rq schema c g)) fs),
        diagnostics := diagnostics st @
                       concat (map (fieldDiagnostics singular rq schema c) fs)\<rparr>"
proof (induction fs arbitrary: st)
  case Nil
  show ?case by simp
next
  case (Cons f fs)
  have "foldl (fieldStep singular rq schema c) st (f # fs) =
        foldl (fieldStep singular rq schema c) (fieldStep singular rq schema c st f) fs"
    by simp
  also have "\<dots> = (fieldStep singular rq schema c st f)
     \<lparr>imports' := foldl pushImport (imports' (fieldStep singular rq schema c st f))
                       (concat (map (fieldImports singular schema c) fs)),
        source := source (fieldStep singular rq schema c st f) @
                  concat (map (\<lambda>g. memberText g (fieldType singular rq schema c g)) fs),
        diagnostics := diagnostics (fieldStep singular rq schema c st f) @
                       concat (map (fieldDiagnostics singular rq schema c) fs)\<rparr>"
    by (rule Cons.IH)
  also have "\<dots> = st\<lparr>imports' := foldl pushImport (imports' st)
                       (concat (map (fieldImports singular schema c) (f # fs))),
        source := source st @
                  concat (map (\<lambda>g. memberText g (fieldType singular rq schema c g)) (f # fs)),
        diagnostics := diagnostics st @
                       concat (map (fieldDiagnostics singular rq schema c) (f # fs))\<rparr>"
    by (simp add: fieldStep_char)
  finally show ?case .
qed

lemma generateModel_char:
  assumes "className singular c = Inr name"
  shows "generateModel singular rq c schema =
     Inr (concat (map (\<lambda>l. l @ ''\<newline>'')
                   (firstSeen (concat (map (fieldImports singular schema c) (fields' c))))) @
          ''\<newline>'' @ ''export interface '' @ name @ '' {\<newline>'' @
          concat (map (\<lambda>g. memberText g (fieldType singular rq schema c g)) (fields' c)) @
          ''}\<newline>'',
          concat (map (fieldDiagnostics singular rq schema c) (fields' c)))"
  using assms
  by (simp add: generateModel_def fieldLoop_char Let_def pushImport_firstSeen)

subsection \<open>Identifiers and the index\<close>

lemma upperCamelCase_article: "upperCamelCase ''article'' = Inr ''Article''"
  by (simp add: upperCamelCase_def upperCamelPart_def toUpperCase_def toLowerCase_def
      toUpperChar_def toLowerChar_def ascii_lower_def ascii_upper_def)

lemma upperCamelCase_user_account: "upperCamelCase ''user_account'' = Inr ''UserAccount''"
  by (simp add: upperCamelCase_def upperCamelPart_def toUpperCase_def toLowerCase_def
      toUpperChar_def toLowerChar_def ascii_lower_def ascii_upper_def)


lemma foldE_indexImport:
  "\<forall>c\<in>set cs. className singular c = Inr (nm c) \<Longrightarrow>
   foldE (indexImport singular) cs src =
     Inr (src @ concat (map (\<lambda>c. indexImportLine (nm c) (nm c)) cs))"
  by (induction cs arbitrary: src) (simp_all add: indexImport_def)

lemma foldE_indexMember:
  "\<forall>c\<in>set cs. className singular c = Inr (nm c) \<Longrightarrow>
   foldE (indexMember singular) cs src =
     Inr (src @ concat (map (\<lambda>c. ''  '' @ collection c @ '': '' @ nm c @ '';\<newline>'') cs))"
  by (induction cs arbitrary: src) (simp_all add: indexMember_def)

lemma generateIndex_char:
  assumes "\<forall>c\<in>set (map snd colls). className singular c = Inr (nm c)"
  shows "generateIndex singular colls =
     Inr (concat (map (\<lambda>c. indexImportLine (nm c) (nm c)) (map snd colls)) @
          ''\<newline>export interface Collections {\<newline>'' @
          concat (map (\<lambda>c. ''  '' @ collection c @ '': '' @ nm c @ '';\<newline>'') (map snd colls)) @
          ''}\<newline>'')"
  unfolding generateIndex_def foldE_indexImport [OF assms] foldE_indexMember [OF assms]
  by simp

subsection \<open>The small catalog, evaluated\<close>

lemmas identifier_defs =
  className_def singular_spec_def upperCamelCase_def upperCamelPart_def
  toUpperCase_def toLowerCase_def toUpperChar_def toLowerChar_def ascii_lower_def
  ascii_upper_def

lemma className_authors: "className singular_spec authors = Inr ''Author''"
  by (simp add: authors_def identifier_defs)

lemma className_articles: "className singular_spec articles = Inr ''Article''"
  by (simp add: articles_def identifier_defs)

lemma className_comments: "className singular_spec comments = Inr ''Comment''"
  by (simp add: comments_def identifier_defs)

lemma className_pages: "className singular_spec pages = Inr ''Page''"
  by (simp add: pages_def identifier_defs)

lemma collection_names:
  "collection authors = ''authors''" "collection articles = ''articles''"
  "collection comments = ''comments''" "collection pages = ''pages''"
  by (simp_all add: authors_def articles_def comments_def pages_def)

lemma find_alias_authors:
  "find (aliasMatch authors) (relations blog) =
     Some (manyToOne ''articles'' ''author'' ''authors'' ''articles'')"
  by (simp add: blog_def aliasMatch_def manyToOne_def collection_names)

lemma find_alias_pages:
  "find (aliasMatch pages) (relations blog) =
     Some (manyToOne ''pages'' ''parent'' ''pages'' ''children'')"
  by (simp add: blog_def aliasMatch_def manyToOne_def collection_names)

lemma classNameOf_blog:
  "classNameOf singular_spec blog ''authors'' = Inr ''Author''"
  "classNameOf singular_spec blog ''articles'' = Inr ''Article''"
  "classNameOf singular_spec blog ''comments'' = Inr ''Comment''"
  "classNameOf singular_spec blog ''pages'' = Inr ''Page''"
  by (simp_all add: classNameOf_def blog_def className_authors className_articles
      className_comments className_pages)

lemma aliasToType_field_irrelevant:
  "aliasToType singular f c schema = aliasToType singular g c schema"
  by (simp add: aliasToType_def)

subsection \<open>Forward relations\<close>



subsection \<open>Import lines\<close>












subsection \<open>The snapshot and failed fields\<close>

lemma generateModel_total:
  assumes "className singular c = Inr name"
  shows "generateModel singular rq c schema = Inr (projr (generateModel singular rq c schema))"
  by (simp add: generateModel_char [OF assms])

lemma snapshotStep_ok:
  assumes "className singular c = Inr name"
  shows "snapshotStep singular rq schema acc c =
     Inr (fst acc @ [(name @ ''.d.ts'', fst (projr (generateModel singular rq c schema)))],
          snd acc @ snd (projr (generateModel singular rq c schema)))"
proof -
  obtain u d where r: "generateModel singular rq c schema = Inr (u, d)"
    using generateModel_total [OF assms, of rq schema]
    by (cases "projr (generateModel singular rq c schema)") simp
  show ?thesis
    by (simp add: snapshotStep_def assms r)
qed

lemma foldE_snapshotStep:
  "\<forall>c\<in>set cs. className singular c = Inr (nm c) \<Longrightarrow>
   foldE (snapshotStep singular rq schema) cs acc =
     Inr (fst acc @
            map (\<lambda>c. (nm c @ ''.d.ts'', fst (projr (generateModel singular rq c schema)))) cs,
          snd acc @
            concat (map (\<lambda>c. snd (projr (generateModel singular rq c schema))) cs))"
proof (induction cs arbitrary: acc)
  case Nil
  show ?case by simp
next
  case (Cons c cs)
  have h: "className singular c = Inr (nm c)"
    and t: "\<forall>c\<in>set cs. className singular c = Inr (nm c)"
    using Cons.prems by simp_all
  show ?case
    by (simp add: snapshotStep_ok [OF h] Cons.IH [OF t])
qed

lemma snapshot_char:
  assumes "\<forall>c\<in>set (map snd (collections schema)). className singular c = Inr (nm c)"
  shows "snapshot singular rq schema =
     Inr (map (\<lambda>c. (nm c @ ''.d.ts'', fst (projr (generateModel singular rq c schema))))
            (map snd (collections schema)) @
          [(''index.d.ts'', projr (generateIndex singular (collections schema)))],
          concat (map (\<lambda>c. snd (projr (generateModel singular rq c schema)))
                    (map snd (collections schema))))"
  by (simp add: snapshot_def foldE_snapshotStep [OF assms] generateIndex_char [OF assms])

lemma fieldType_failed:
  "fieldTry singular rq schema c imps f = Inl e \<Longrightarrow>
   fieldType singular rq schema c f = ''never''"
  using fieldTry_error_indep [of singular rq schema c imps f e "[]"]
  by (simp add: fieldType_def)

lemma fieldDiagnostics_failed:
  "fieldTry singular rq schema c imps f = Inl e \<Longrightarrow>
   fieldDiagnostics singular rq schema c f = [missingField c f e]"
  using fieldTry_error_indep [of singular rq schema c imps f e "[]"]
  by (simp add: fieldDiagnostics_def)

lemma className_shapes: "className singular_spec shapes = Inr ''Shape''"
  by (simp add: shapes_def identifier_defs)

lemma className_layers: "className singular_spec layers = Inr ''Layer''"
  by (simp add: layers_def identifier_defs)

lemmas resolve_defs =
  fieldTry_def fieldToRelationType_def configuredChoices_def fieldTypeToJsType_def
  widen_def noChoices_def plainField_def

lemma fieldTry_shapes:
  "fieldTry singular_spec noChoices atlas shapes imps (plainField ''id'' ''integer'')
     = Inr (''number'', imps)"
  "fieldTry singular_spec noChoices atlas shapes imps
     ((plainField ''area'' ''geometry'')\<lparr>nullable := True\<rparr>) = Inl UnknownType"
  "fieldTry singular_spec noChoices atlas shapes imps
     ((plainField ''name'' ''string'')\<lparr>nullable := True\<rparr>) = Inr (''string | null'', imps)"
  by (simp_all add: resolve_defs atlas_def)

lemma fieldTry_layers:
  "fieldTry singular_spec noChoices atlas layers imps (plainField ''id'' ''integer'')
     = Inr (''number'', imps)"
  by (simp add: resolve_defs atlas_def)

lemma fields_shapes:
  "fields' shapes = [plainField ''id'' ''integer''] @
     (plainField ''area'' ''geometry'')\<lparr>nullable := True\<rparr> #
     [(plainField ''name'' ''string'')\<lparr>nullable := True\<rparr>]"
  by (simp add: shapes_def)

lemma fields_layers: "fields' layers = [plainField ''id'' ''integer'']"
  by (simp add: layers_def)

lemma generateModel_layers_diagnostics:
  "snd (projr (generateModel singular_spec noChoices layers atlas)) = []"
  unfolding generateModel_char [OF className_layers] fields_layers
  by (simp add: fieldDiagnostics_def fieldTry_layers)

lemma collections_atlas: "map snd (collections atlas) = [shapes, layers]"
  by (simp add: atlas_def)

lemma collection_names_atlas:
  "collection shapes = ''shapes''" "collection layers = ''layers''"
  by (simp_all add: shapes_def layers_def)

subsection \<open>Nullable fields\<close>

lemma fieldTypeToJsType_nullable:
  "fieldTypeToJsType (f\<lparr>nullable := b\<rparr>) c = fieldTypeToJsType f c"
  by (simp add: fieldTypeToJsType_def)

lemma fieldToRelationType_nullable:
  "fieldToRelationType singular (f\<lparr>nullable := b\<rparr>) c schema =
   fieldToRelationType singular f c schema"
  by (simp add: fieldToRelationType_def fieldTypeToJsType_nullable
      cong: option.case_cong sum.case_cong if_cong)

lemma fieldTry_unwidened:
  "fieldTry singular rq schema c imps f =
     (case fieldTry singular rq schema c imps (f\<lparr>nullable := False\<rparr>) of
        Inl e \<Rightarrow> Inl e
      | Inr (t, ls) \<Rightarrow> Inr (widen f t, ls))"
  by (simp add: fieldTry_def widen_def fieldTypeToJsType_nullable
      fieldToRelationType_nullable
      aliasToType_field_irrelevant [of singular "f\<lparr>nullable := False\<rparr>" c schema f]
      split: sum.splits option.splits)

subsection \<open>Enumerated choices\<close>







subsection \<open>Empty segments\<close>

lemma split_underscore_nonempty: "split_underscore s \<noteq> []"
  by (induction s) (auto split: list.splits)

lemma split_underscore_append:
  "split_underscore (a @ CHR ''_'' # b) = split_underscore a @ split_underscore b"
proof (induction a)
  case Nil
  show ?case by simp
next
  case (Cons x a)
  obtain p ps where p: "split_underscore a = p # ps"
    using split_underscore_nonempty [of a] by (cases "split_underscore a") auto
  show ?case
    using Cons.IH by (simp add: p)
qed

lemma empty_segment:
  assumes "s = [] \<or> (\<exists>t. s = CHR ''_'' # t) \<or> (\<exists>t. s = t @ ''_'')
           \<or> (\<exists>t u. s = t @ ''__'' @ u)"
  shows "[] \<in> set (split_underscore s)"
proof -
  consider "s = []" | t where "s = CHR ''_'' # t" | t where "s = t @ ''_''"
    | t u where "s = t @ ''__'' @ u"
    using assms by blast
  then show ?thesis
  proof cases
    case 1
    then show ?thesis by simp
  next
    case 2
    then show ?thesis by simp
  next
    case 3
    then have "split_underscore s = split_underscore t @ split_underscore []"
      using split_underscore_append [of t "[]"] by simp
    then show ?thesis by simp
  next
    case 4
    then have "split_underscore s = split_underscore t @ split_underscore (CHR ''_'' # u)"
      using split_underscore_append [of t "CHR ''_'' # u"] by simp
    then show ?thesis by simp
  qed
qed

lemma upperCamelPart_simps:
  "upperCamelPart [] = Inl TypeError"
  "upperCamelPart (x # xs) = Inr (toUpperCase [x] @ toLowerCase xs)"
  by (simp_all add: upperCamelPart_def)

lemma mapE_upperCamelPart_empty:
  "[] \<in> set parts \<Longrightarrow> mapE upperCamelPart parts = Inl TypeError"
proof (induction parts)
  case Nil
  then show ?case by simp
next
  case (Cons p parts)
  show ?case
  proof (cases p)
    case Nil
    then show ?thesis by (simp add: upperCamelPart_simps)
  next
    case (Cons x xs)
    with Cons.prems have "[] \<in> set parts" by simp
    then have "mapE upperCamelPart parts = Inl TypeError" by (rule Cons.IH)
    then show ?thesis using Cons by (simp add: upperCamelPart_simps)
  qed
qed

lemma upperCamelCase_empty_segment:
  "[] \<in> set (split_underscore s) \<Longrightarrow> upperCamelCase s = Inl TypeError"
  by (simp add: upperCamelCase_def mapE_upperCamelPart_empty)

lemma mapE_upperCamelPart_error:
  "mapE upperCamelPart parts = Inl e \<Longrightarrow> e = TypeError"
proof (induction parts)
  case Nil
  then show ?case by simp
next
  case (Cons p parts)
  show ?case
  proof (cases p)
    case Nil
    with Cons.prems show ?thesis by (simp add: upperCamelPart_simps)
  next
    case (Cons x xs)
    with Cons.prems Cons.IH show ?thesis
      by (auto simp add: upperCamelPart_simps split: sum.splits)
  qed
qed

lemma className_error: "className singular c = Inl e \<Longrightarrow> e = TypeError"
  by (auto simp add: className_def upperCamelCase_def split: sum.splits
      dest: mapE_upperCamelPart_error)

lemma generateModel_error:
  "generateModel singular rq c schema = Inl e \<Longrightarrow> e = TypeError"
  by (auto simp add: generateModel_def Let_def split: sum.splits dest: className_error)

lemma snapshotStep_error:
  "snapshotStep singular rq schema acc c = Inl e \<Longrightarrow> e = TypeError"
  by (auto simp add: snapshotStep_def split: sum.splits prod.splits
      dest: className_error generateModel_error)

lemma snapshotStep_abort:
  "className singular c = Inl TypeError \<Longrightarrow>
   snapshotStep singular rq schema acc c = Inl TypeError"
  by (simp add: snapshotStep_def)

lemma foldE_snapshotStep_abort:
  "c \<in> set cs \<Longrightarrow> className singular c = Inl TypeError \<Longrightarrow>
   foldE (snapshotStep singular rq schema) cs acc = Inl TypeError"
proof (induction cs arbitrary: acc)
  case Nil
  then show ?case by simp
next
  case (Cons x cs)
  show ?case
  proof (cases "snapshotStep singular rq schema acc x")
    case (Inl e)
    then have "e = TypeError" by (rule snapshotStep_error)
    with Inl show ?thesis by simp
  next
    case (Inr acc')
    have "x \<noteq> c"
      using Inr snapshotStep_abort [OF Cons.prems(2), of rq schema acc] by auto
    with Cons.prems(1) have "c \<in> set cs" by simp
    then have "foldE (snapshotStep singular rq schema) cs acc' = Inl TypeError"
      using Cons.prems(2) by (rule Cons.IH)
    with Inr show ?thesis by simp
  qed
qed

section \<open>Properties of the generator\<close>

subsection \<open>The derived type identifier\<close>



subsection \<open>The index unit\<close>

text \<open>
  Claim C7. When every collection of the catalog has an identifier, the index unit is
  one import line per collection, in catalog order, then the declaration
  \<^verbatim>\<open>Collections\<close> with one member per collection, in catalog order; the key of a member
  is the raw collection name and its value the identifier of the collection.
\<close>

theorem generateIndex_lines:
  assumes "\<forall>c\<in>set (map snd colls). className singular c = Inr (nm c)"
  shows \<open>generateIndex singular colls =
     Inr (concat (map (\<lambda>c. ''import { '' @ nm c @ '' } from "./'' @ nm c @ ''";\<newline>'')
                   (map snd colls)) @
          ''\<newline>export interface Collections {\<newline>'' @
          concat (map (\<lambda>c. ''  '' @ collection c @ '': '' @ nm c @ '';\<newline>'') (map snd colls)) @
          ''}\<newline>'')\<close>
  using generateIndex_char [OF assms] by (simp add: indexImportLine_def)

theorem generateIndex_lines_witness:
  \<open>className singular_spec \<lparr>collection = ''articles'', fields' = []\<rparr> = Inr ''Article''
   \<and> className singular_spec \<lparr>collection = ''user_accounts'', fields' = []\<rparr>
       = Inr ''UserAccount''
   \<and> generateIndex singular_spec
         [(''articles'', \<lparr>collection = ''articles'', fields' = []\<rparr>),
          (''user_accounts'', \<lparr>collection = ''user_accounts'', fields' = []\<rparr>)] =
       Inr (''import { Article } from "./Article";\<newline>'' @
            ''import { UserAccount } from "./UserAccount";\<newline>'' @
            ''\<newline>export interface Collections {\<newline>'' @
            ''  articles: Article;\<newline>'' @
            ''  user_accounts: UserAccount;\<newline>'' @
            ''}\<newline>'')\<close>
proof -
  have a: "className singular_spec \<lparr>collection = ''articles'', fields' = []\<rparr>
             = Inr ''Article''"
    by (simp add: className_def singular_spec_def upperCamelCase_article)
  have u: "className singular_spec \<lparr>collection = ''user_accounts'', fields' = []\<rparr>
             = Inr ''UserAccount''"
    by (simp add: className_def singular_spec_def upperCamelCase_user_account)
  have h: "\<forall>c\<in>set (map snd
               [(''articles'', \<lparr>collection = ''articles'', fields' = []\<rparr>),
                (''user_accounts'', \<lparr>collection = ''user_accounts'', fields' = []\<rparr>)]).
             className singular_spec c =
               Inr ((\<lambda>c. if collection c = ''articles'' then ''Article'' else ''UserAccount'') c)"
    using a u by simp
  show ?thesis
    using a u generateIndex_lines [OF h] by simp
qed

subsection \<open>Reverse relations\<close>

text \<open>
  Claim C1 says that an alias field is given a relation only when the relation's
  \<^verbatim>\<open>one_collection\<close> is the collection and its \<^verbatim>\<open>one_field\<close> is the field, and that
  an alias field with no such relation is not a reverse relation. \<^verbatim>\<open>aliasToType\<close>
  compares \<^verbatim>\<open>one_collection\<close> only and tests \<^verbatim>\<open>one_field\<close> for truthiness. In the small
  catalog the alias field \<^verbatim>\<open>comments\<close> of authors, and the alias field \<^verbatim>\<open>divider\<close>, which
  no relation names, both get the first relation whose one side is authors, the one
  whose \<^verbatim>\<open>one_field\<close> is \<^verbatim>\<open>articles\<close>, and the type \<^verbatim>\<open>Article[]\<close>.
\<close>

theorem aliasToType_wrong_relation:
  "aliasToType singular_spec (aliasField ''comments'') authors blog =
     Inr (Some [''Article[]'', importLine ''Article''])
   \<and> aliasToType singular_spec (aliasField ''divider'') authors blog =
     Inr (Some [''Article[]'', importLine ''Article''])
   \<and> find (aliasMatch authors) (relations blog) =
     Some (manyToOne ''articles'' ''author'' ''authors'' ''articles'')
   \<and> map_option one_field (meta (manyToOne ''articles'' ''author'' ''authors'' ''articles''))
       = Some (Some ''articles'')
   \<and> field (aliasField ''comments'') = ''comments''
   \<and> field (aliasField ''divider'') = ''divider''"
  by (simp add: aliasToType_def find_alias_authors classNameOf_blog className_authors
      manyToOne_def aliasField_def)

text \<open>
  Claim C2 says that a reverse relation has the type \<^verbatim>\<open>Related[]\<close> and that a
  self-reference differs in the import only. In the branch of \<^verbatim>\<open>aliasToType\<close> for a
  self-reference the array suffix is missing: the alias field \<^verbatim>\<open>children\<close> of pages,
  whose many side is pages, gets the type \<^verbatim>\<open>Page\<close>.
\<close>

theorem aliasToType_self_reference:
  "aliasToType singular_spec (aliasField ''children'') pages blog = Inr (Some [''Page''])
   \<and> fieldType singular_spec noChoices blog pages (aliasField ''children'') = ''Page''"
  by (simp add: fieldType_def fieldTry_def widen_def aliasToType_def find_alias_pages
      classNameOf_blog className_pages manyToOne_def aliasField_def)

subsection \<open>Forward relations\<close>



subsection \<open>Imports of a unit\<close>



subsection \<open>Fields that fail\<close>

text \<open>
  Claim C3. When the \<^verbatim>\<open>try\<close> block of a field throws, whatever the exception, the
  field is written with the type \<^verbatim>\<open>never\<close>, one diagnostic is printed whose text names
  the collection and the field and whose second argument is the exception, and the
  import list is left as it was. The loop goes on: the unit is returned, and in it the
  fields before and after the failed one have the text and the diagnostics they have on
  their own, and the imports are those of the other fields. The run goes on as well:
  when every collection has an identifier the snapshot writes one file per collection
  and the index, each file being what \<^verbatim>\<open>generateModel\<close> returns for that collection.
\<close>

theorem failed_field_is_never:
  assumes "className singular c = Inr name"
      and "fields' c = pre @ f # post"
      and "fieldTry singular rq schema c imps f = Inl e"
  shows \<open>fieldStep singular rq schema c st f =
           st\<lparr>source := source st @ memberText f ''never'',
              diagnostics := diagnostics st @ [missingField c f e]\<rparr>
       \<and> headline (missingField c f e) =
           ''\<newline>== Missing Field ==\<newline>Failed to get the type for '' @
           collection c @ ''.'' @ field f @
           ''. Setting to "never".\<newline>Please report this error: '' @
           ''https://github.com/ChappIO/directus-extension-models/issues.'' @
           ''\<newline>\<newline>\<newline>Stack Trace:''
       \<and> cause (missingField c f e) = e
       \<and> generateModel singular rq c schema =
           Inr (concat (map (\<lambda>l. l @ ''\<newline>'')
                         (firstSeen (concat (map (fieldImports singular schema c)
                                                (pre @ post))))) @
                ''\<newline>'' @ ''export interface '' @ name @ '' {\<newline>'' @
                concat (map (\<lambda>g. memberText g (fieldType singular rq schema c g)) pre) @
                memberText f ''never'' @
                concat (map (\<lambda>g. memberText g (fieldType singular rq schema c g)) post) @
                ''}\<newline>'',
                concat (map (fieldDiagnostics singular rq schema c) pre) @
                [missingField c f e] @
                concat (map (fieldDiagnostics singular rq schema c) post))
       \<and> ((\<forall>c'\<in>set (map snd (collections schema)). className singular c' = Inr (nm c')) \<longrightarrow>
           snapshot singular rq schema =
             Inr (map (\<lambda>c'. (nm c' @ ''.d.ts'',
                             fst (projr (generateModel singular rq c' schema))))
                    (map snd (collections schema)) @
                  [(''index.d.ts'', projr (generateIndex singular (collections schema)))],
                  concat (map (\<lambda>c'. snd (projr (generateModel singular rq c' schema)))
                            (map snd (collections schema)))))\<close>
proof -
  have i: "fieldTry singular rq schema c (imports' st) f = Inl e"
    using assms(3) by (rule fieldTry_error_indep)
  have 1: "fieldStep singular rq schema c st f =
           st\<lparr>source := source st @ memberText f ''never'',
              diagnostics := diagnostics st @ [missingField c f e]\<rparr>"
    using i by (rule fieldStep_Inl)
  have 2: \<open>headline (missingField c f e) =
           ''\<newline>== Missing Field ==\<newline>Failed to get the type for '' @
           collection c @ ''.'' @ field f @
           ''. Setting to "never".\<newline>Please report this error: '' @
           ''https://github.com/ChappIO/directus-extension-models/issues.'' @
           ''\<newline>\<newline>\<newline>Stack Trace:''\<close>
    and 3: "cause (missingField c f e) = e"
    by (simp_all add: missingField_def)
  have 4: "generateModel singular rq c schema =
           Inr (concat (map (\<lambda>l. l @ ''\<newline>'')
                         (firstSeen (concat (map (fieldImports singular schema c)
                                                (pre @ post))))) @
                ''\<newline>'' @ ''export interface '' @ name @ '' {\<newline>'' @
                concat (map (\<lambda>g. memberText g (fieldType singular rq schema c g)) pre) @
                memberText f ''never'' @
                concat (map (\<lambda>g. memberText g (fieldType singular rq schema c g)) post) @
                ''}\<newline>'',
                concat (map (fieldDiagnostics singular rq schema c) pre) @
                [missingField c f e] @
                concat (map (fieldDiagnostics singular rq schema c) post))"
    unfolding generateModel_char [OF assms(1)] assms(2)
    by (simp add: fieldType_failed [OF assms(3)] fieldDiagnostics_failed [OF assms(3)]
        fieldTry_error_imports [OF assms(3)])
  from 1 2 3 4 snapshot_char [of schema singular nm rq] show ?thesis
    by blast
qed

theorem failed_field_is_never_witness:
  \<open>className singular_spec shapes = Inr ''Shape''
   \<and> fields' shapes = [plainField ''id'' ''integer''] @
        (plainField ''area'' ''geometry'')\<lparr>nullable := True\<rparr> #
        [(plainField ''name'' ''string'')\<lparr>nullable := True\<rparr>]
   \<and> fieldTry singular_spec noChoices atlas shapes []
        ((plainField ''area'' ''geometry'')\<lparr>nullable := True\<rparr>) = Inl UnknownType
   \<and> generateModel singular_spec noChoices shapes atlas =
       Inr (''\<newline>export interface Shape {\<newline>'' @
            ''\<newline>  /**\<newline>   * No description.\<newline>   *\<newline>'' @
            ''   * Type in directus: integer\<newline>   * Type in database: integer\<newline>'' @
            ''   */\<newline>   id: number;\<newline>'' @
            ''\<newline>  /**\<newline>   * No description.\<newline>   *\<newline>'' @
            ''   * Type in directus: geometry\<newline>   * Type in database: geometry\<newline>'' @
            ''   */\<newline>   area: never;\<newline>'' @
            ''\<newline>  /**\<newline>   * No description.\<newline>   *\<newline>'' @
            ''   * Type in directus: string\<newline>   * Type in database: string\<newline>'' @
            ''   */\<newline>   name: string | null;\<newline>'' @
            ''}\<newline>'',
            [missingField shapes ((plainField ''area'' ''geometry'')\<lparr>nullable := True\<rparr>)
               UnknownType])
   \<and> className singular_spec layers = Inr ''Layer''
   \<and> snapshot singular_spec noChoices atlas =
       Inr ([(''Shape.d.ts'', fst (projr (generateModel singular_spec noChoices shapes atlas))),
             (''Layer.d.ts'', fst (projr (generateModel singular_spec noChoices layers atlas))),
             (''index.d.ts'', projr (generateIndex singular_spec (collections atlas)))],
            [missingField shapes ((plainField ''area'' ''geometry'')\<lparr>nullable := True\<rparr>)
               UnknownType])\<close>
proof -
  have h: "\<forall>c'\<in>set (map snd (collections atlas)).
             className singular_spec c' =
               Inr ((\<lambda>c. if collection c = ''shapes'' then ''Shape'' else ''Layer'') c')"
    by (simp add: collections_atlas className_shapes className_layers collection_names_atlas)
  note t = failed_field_is_never [OF className_shapes fields_shapes fieldTry_shapes(2),
      where st = "\<lparr>imports' = [], source = [], diagnostics = []\<rparr>"
        and nm = "\<lambda>c. if collection c = ''shapes'' then ''Shape'' else ''Layer''"]
  have fi: "fieldImports singular_spec atlas shapes g = []" for g
    by (simp add: fieldImports_def fieldToRelationType_def aliasToType_def atlas_def)
  from t have g: "generateModel singular_spec noChoices shapes atlas =
       Inr (''\<newline>export interface Shape {\<newline>'' @
            ''\<newline>  /**\<newline>   * No description.\<newline>   *\<newline>'' @
            ''   * Type in directus: integer\<newline>   * Type in database: integer\<newline>'' @
            ''   */\<newline>   id: number;\<newline>'' @
            ''\<newline>  /**\<newline>   * No description.\<newline>   *\<newline>'' @
            ''   * Type in directus: geometry\<newline>   * Type in database: geometry\<newline>'' @
            ''   */\<newline>   area: never;\<newline>'' @
            ''\<newline>  /**\<newline>   * No description.\<newline>   *\<newline>'' @
            ''   * Type in directus: string\<newline>   * Type in database: string\<newline>'' @
            ''   */\<newline>   name: string | null;\<newline>'' @
            ''}\<newline>'',
            [missingField shapes ((plainField ''area'' ''geometry'')\<lparr>nullable := True\<rparr>)
               UnknownType])"
    by (simp add: fi firstSeen_def fieldType_def fieldDiagnostics_def fieldTry_shapes)
      (simp add: memberText_def plainField_def)
  from t h have "snapshot singular_spec noChoices atlas =
             Inr (map (\<lambda>c'. ((if collection c' = ''shapes'' then ''Shape'' else ''Layer'') @ ''.d.ts'',
                             fst (projr (generateModel singular_spec noChoices c' atlas))))
                    (map snd (collections atlas)) @
                  [(''index.d.ts'', projr (generateIndex singular_spec (collections atlas)))],
                  concat (map (\<lambda>c'. snd (projr (generateModel singular_spec noChoices c' atlas)))
                            (map snd (collections atlas))))"
    by blast
  then have s: "snapshot singular_spec noChoices atlas =
       Inr ([(''Shape.d.ts'', fst (projr (generateModel singular_spec noChoices shapes atlas))),
             (''Layer.d.ts'', fst (projr (generateModel singular_spec noChoices layers atlas))),
             (''index.d.ts'', projr (generateIndex singular_spec (collections atlas)))],
            [missingField shapes ((plainField ''area'' ''geometry'')\<lparr>nullable := True\<rparr>)
               UnknownType])"
    unfolding collections_atlas
    by (simp add: collection_names_atlas g generateModel_layers_diagnostics)
  from className_shapes fields_shapes fieldTry_shapes(2) [of "[]"] g className_layers s
  show ?thesis by blast
qed

subsection \<open>Nullable fields\<close>

text \<open>
  Claim C5 says that every nullable field has its type widened with the null marker,
  also a field whose resolution failed and was set to \<^verbatim>\<open>never\<close>. The widening is the
  last statement of the \<^verbatim>\<open>try\<close> block, and the \<^verbatim>\<open>catch\<close> block assigns \<^verbatim>\<open>never\<close> after
  it: the nullable geometry column \<^verbatim>\<open>area\<close> of shapes is written with the type
  \<^verbatim>\<open>never\<close>, not \<^verbatim>\<open>never | null\<close>.
\<close>

theorem nullable_unless_failed_counterexample:
  "nullable ((plainField ''area'' ''geometry'')\<lparr>nullable := True\<rparr>)
   \<and> fieldTry singular_spec noChoices atlas shapes []
        ((plainField ''area'' ''geometry'')\<lparr>nullable := True\<rparr>) = Inl UnknownType
   \<and> source (fieldStep singular_spec noChoices atlas shapes
                \<lparr>imports' = [], source = [], diagnostics = []\<rparr>
                ((plainField ''area'' ''geometry'')\<lparr>nullable := True\<rparr>))
       = memberText ((plainField ''area'' ''geometry'')\<lparr>nullable := True\<rparr>) ''never''
   \<and> memberText ((plainField ''area'' ''geometry'')\<lparr>nullable := True\<rparr>) ''never''
       \<noteq> memberText ((plainField ''area'' ''geometry'')\<lparr>nullable := True\<rparr>) ''never | null''"
  by (simp add: fieldStep_def fieldTry_shapes memberText_def)

text \<open>
  Claim C5, amended. For a nullable field whose resolution succeeds, the type written
  is the type the same field resolves to when it is not nullable, followed by
  \<^verbatim>\<open> | null\<close>: the widening comes after the relation, enum or scalar resolution. A
  nullable field whose resolution fails is written with the type \<^verbatim>\<open>never\<close> and no null
  marker.
\<close>

theorem nullable_widening:
  assumes "nullable f"
  shows "(\<forall>t ls. fieldTry singular rq schema c imps (f\<lparr>nullable := False\<rparr>) = Inr (t, ls) \<longrightarrow>
            fieldTry singular rq schema c imps f = Inr (t @ '' | null'', ls)
            \<and> fieldType singular rq schema c f = t @ '' | null'')
       \<and> (\<forall>e. fieldTry singular rq schema c imps (f\<lparr>nullable := False\<rparr>) = Inl e \<longrightarrow>
            fieldTry singular rq schema c imps f = Inl e
            \<and> fieldType singular rq schema c f = ''never'')
       \<and> source (fieldStep singular rq schema c st f) =
           source st @ memberText f (fieldType singular rq schema c f)"
proof (intro conjI allI impI)
  fix t ls
  assume a: "fieldTry singular rq schema c imps (f\<lparr>nullable := False\<rparr>) = Inr (t, ls)"
  show r: "fieldTry singular rq schema c imps f = Inr (t @ '' | null'', ls)"
    using assms a by (simp add: fieldTry_unwidened [of singular rq schema c imps f] widen_def)
  obtain ls0 where "fieldTry singular rq schema c [] f = Inr (t @ '' | null'', ls0)"
    using fieldTry_type_indep [OF r] by blast
  then show "fieldType singular rq schema c f = t @ '' | null''"
    by (simp add: fieldType_def)
next
  fix e
  assume a: "fieldTry singular rq schema c imps (f\<lparr>nullable := False\<rparr>) = Inl e"
  show r: "fieldTry singular rq schema c imps f = Inl e"
    using a by (simp add: fieldTry_unwidened [of singular rq schema c imps f])
  show "fieldType singular rq schema c f = ''never''"
    using r by (rule fieldType_failed)
next
  show "source (fieldStep singular rq schema c st f) =
           source st @ memberText f (fieldType singular rq schema c f)"
    by (simp add: fieldStep_char)
qed

theorem nullable_widening_witness:
  "nullable ((plainField ''name'' ''string'')\<lparr>nullable := True\<rparr>)
   \<and> fieldTry singular_spec noChoices atlas shapes []
        ((plainField ''name'' ''string'')\<lparr>nullable := True, nullable := False\<rparr>)
       = Inr (''string'', [])
   \<and> fieldTry singular_spec noChoices atlas shapes []
        ((plainField ''name'' ''string'')\<lparr>nullable := True\<rparr>) = Inr (''string | null'', [])
   \<and> fieldType singular_spec noChoices atlas shapes
        ((plainField ''name'' ''string'')\<lparr>nullable := True\<rparr>) = ''string | null''
   \<and> nullable ((plainField ''area'' ''geometry'')\<lparr>nullable := True\<rparr>)
   \<and> fieldTry singular_spec noChoices atlas shapes []
        ((plainField ''area'' ''geometry'')\<lparr>nullable := True, nullable := False\<rparr>)
       = Inl UnknownType
   \<and> fieldType singular_spec noChoices atlas shapes
        ((plainField ''area'' ''geometry'')\<lparr>nullable := True\<rparr>) = ''never''"
proof -
  have n: "nullable ((plainField ''name'' ''string'')\<lparr>nullable := True\<rparr>)"
    and a: "nullable ((plainField ''area'' ''geometry'')\<lparr>nullable := True\<rparr>)"
    by simp_all
  have n0: "fieldTry singular_spec noChoices atlas shapes []
        ((plainField ''name'' ''string'')\<lparr>nullable := True, nullable := False\<rparr>)
       = Inr (''string'', [])"
    and a0: "fieldTry singular_spec noChoices atlas shapes []
        ((plainField ''area'' ''geometry'')\<lparr>nullable := True, nullable := False\<rparr>)
       = Inl UnknownType"
    by (simp_all add: resolve_defs atlas_def)
  note tn = nullable_widening [OF n, of singular_spec noChoices atlas shapes "[]"
      "\<lparr>imports' = [], source = [], diagnostics = []\<rparr>"]
  note ta = nullable_widening [OF a, of singular_spec noChoices atlas shapes "[]"
      "\<lparr>imports' = [], source = [], diagnostics = []\<rparr>"]
  from tn n0 have 1: "fieldTry singular_spec noChoices atlas shapes []
        ((plainField ''name'' ''string'')\<lparr>nullable := True\<rparr>) = Inr (''string | null'', [])"
    and 2: "fieldType singular_spec noChoices atlas shapes
        ((plainField ''name'' ''string'')\<lparr>nullable := True\<rparr>) = ''string | null''"
    by auto
  from ta a0 have 3: "fieldType singular_spec noChoices atlas shapes
        ((plainField ''area'' ''geometry'')\<lparr>nullable := True\<rparr>) = ''never''"
    by blast
  from n a n0 a0 1 2 3 show ?thesis by blast
qed

subsection \<open>Enumerated choices\<close>




subsection \<open>Names with an empty segment\<close>

text \<open>
  Claim C10. Take a collection of the catalog whose name, once singularized, is empty,
  begins or ends with an underscore, or has two underscores in a row. Splitting the name
  at the underscores gives an empty segment, so \<^verbatim>\<open>upperCamelCase\<close> and \<^verbatim>\<open>className\<close>
  throw a \<^verbatim>\<open>TypeError\<close>. \<^verbatim>\<open>generateModel\<close> calls \<^verbatim>\<open>className\<close> for the header, before the
  loop and outside its \<^verbatim>\<open>try\<close>, and throws as well; the snapshot command calls it for
  the file name, and the whole run ends with the exception instead of writing a unit
  with \<^verbatim>\<open>never\<close> in it.
\<close>

theorem empty_segment_aborts_run:
  assumes "(k, c) \<in> set (collections schema)"
      and "s = singular (collection c)"
      and "s = [] \<or> (\<exists>t. s = CHR ''_'' # t) \<or> (\<exists>t. s = t @ ''_'')
           \<or> (\<exists>t u. s = t @ ''__'' @ u)"
  shows "[] \<in> set (split_underscore s)
       \<and> upperCamelCase s = Inl TypeError
       \<and> className singular c = Inl TypeError
       \<and> generateModel singular rq c schema = Inl TypeError
       \<and> snapshot singular rq schema = Inl TypeError"
proof -
  have 1: "[] \<in> set (split_underscore s)"
    using assms(3) by (rule empty_segment)
  then have 2: "upperCamelCase s = Inl TypeError"
    by (rule upperCamelCase_empty_segment)
  then have 3: "className singular c = Inl TypeError"
    using assms(2) by (simp add: className_def)
  then have 4: "generateModel singular rq c schema = Inl TypeError"
    by (simp add: generateModel_def)
  have "c \<in> set (map snd (collections schema))"
    using assms(1) by force
  then have "foldE (snapshotStep singular rq schema) (map snd (collections schema)) ([], [])
               = Inl TypeError"
    using 3 by (rule foldE_snapshotStep_abort)
  then have 5: "snapshot singular rq schema = Inl TypeError"
    by (simp add: snapshot_def)
  from 1 2 3 4 5 show ?thesis by blast
qed

theorem empty_segment_aborts_run_witness:
  "(''blog__posts'', blog_posts) \<in> set (collections site)
   \<and> ''blog__post'' = singular_spec (collection blog_posts)
   \<and> ''blog__post'' = ''blog'' @ ''__'' @ ''post''
   \<and> className singular_spec layers = Inr ''Layer''
   \<and> className singular_spec blog_posts = Inl TypeError
   \<and> generateModel singular_spec noChoices blog_posts site = Inl TypeError
   \<and> snapshot singular_spec noChoices site = Inl TypeError"
proof -
  have a: "(''blog__posts'', blog_posts) \<in> set (collections site)"
    by (simp add: site_def)
  have b: "''blog__post'' = singular_spec (collection blog_posts)"
    by (simp add: blog_posts_def singular_spec_def)
  have d: "''blog__post'' = ''blog'' @ ''__'' @ ''post''"
    by simp
  then have c: "''blog__post'' = [] \<or> (\<exists>t. ''blog__post'' = CHR ''_'' # t)
       \<or> (\<exists>t. ''blog__post'' = t @ ''_'') \<or> (\<exists>t u. ''blog__post'' = t @ ''__'' @ u)"
    by blast
  note t = empty_segment_aborts_run [where singular = singular_spec and c = blog_posts
      and schema = site and s = "''blog__post''" and k = "''blog__posts''"
      and rq = noChoices, OF a b c]
  from a b d className_layers t show ?thesis by blast
qed

end
